theory Spec2Isabelle
  imports Main
begin

section \<open>Data model of the sync manager\<close>

text \<open>
  The three lifecycle states a transaction can be in (the strings
  \<^verbatim>\<open>'mempool'\<close>, \<^verbatim>\<open>'pending'\<close>, \<^verbatim>\<open>'confirmed'\<close> of
  \<^verbatim>\<open>src/sync-manager.js\<close>), the two ledger sides \<^verbatim>\<open>'in'\<close> and
  \<^verbatim>\<open>'out'\<close>, and the four directions of a \<^verbatim>\<open>TxEntry\<close>.
\<close>

datatype tx_state = Mempool | Pending | Confirmed

datatype inout = In | Out

datatype direction = INCOMING | OUTGOING | INTERNAL | UNKNOWN

text \<open>
  An input or output of a transaction as the provider reports it. \<open>own_addr\<close>,
  \<open>address_public_key\<close> and \<open>address_path\<close> are the fields that
  \<^verbatim>\<open>_processUtxo\<close> writes on the object. Amounts are integers in base units.
\<close>

record utxo =
  address :: string
  amount_value :: int
  txid :: string
  index :: nat
  prev_txid :: string
  prev_index :: nat
  own_addr :: bool
  address_public_key :: "string option"
  address_path :: "string option"

record tx =
  tx_txid :: string
  height :: int
  fee :: int
  tx_out :: "utxo list"
  tx_in :: "utxo list"

record block =
  current :: int
  last :: int
  diff :: int

text \<open>The address object of the HD wallet and of the key manager.\<close>

record hd_addr =
  hd_address :: string
  publicKey :: string
  hd_path :: string

record to_meta =
  meta_amount :: int
  own_address :: bool

record tx_entry =
  entry_txid :: string
  from_address :: "string list"
  to_address :: "string list"
  entry_fee :: int
  amount :: int
  entry_height :: int
  entry_direction :: direction
  to_address_meta :: "to_meta list"

text \<open>
  Modelled from the spec: the per-address balance object of
  \<^verbatim>\<open>address-manager.js\<close>, which is not among the sources. The spec gives it three
  ledgers (\<open>in\<close>, \<open>out\<close>, \<open>fee\<close>), each a mapping from a state to a mapping from
  outpoints to amounts; \<^verbatim>\<open>getTx\<close> reads an outpoint of a state bucket and
  \<^verbatim>\<open>addTxid\<close> records an amount there.
\<close>

type_synonym ledger = "tx_state \<Rightarrow> string \<rightharpoonup> int"

record balance =
  bal_in :: ledger
  bal_out :: ledger
  bal_fee :: ledger

definition empty_ledger :: ledger where
  "empty_ledger = (\<lambda>st. Map.empty)"

definition empty_balance :: balance where
  "empty_balance = \<lparr>bal_in = empty_ledger, bal_out = empty_ledger, bal_fee = empty_ledger\<rparr>"

definition getTx :: "ledger \<Rightarrow> tx_state \<Rightarrow> string \<Rightarrow> int option" where
  "getTx l st point = l st point"

definition addTxid :: "ledger \<Rightarrow> tx_state \<Rightarrow> string \<Rightarrow> int \<Rightarrow> ledger" where
  "addTxid l st point v = l(st := (l st)(point \<mapsto> v))"

fun bal_side :: "balance \<Rightarrow> inout \<Rightarrow> ledger" where
  "bal_side b In = bal_in b"
| "bal_side b Out = bal_out b"

fun bal_side_update :: "inout \<Rightarrow> ledger \<Rightarrow> balance \<Rightarrow> balance" where
  "bal_side_update In l b = b\<lparr>bal_in := l\<rparr>"
| "bal_side_update Out l b = b\<lparr>bal_out := l\<rparr>"

text \<open>
  The calls that \<^verbatim>\<open>_processUtxo\<close> and its callers make on the total balance and
  on the unspent store. Both classes are outside the sources; the model keeps the
  sequence of calls each of them has received, so a store that received no call is
  a store that was not touched.
\<close>

datatype total_call = AddTxId inout tx_state utxo string int

datatype unspent_call = UnspentAdd utxo inout | UnspentProcess

text \<open>The two chains of the HD wallet, \<^verbatim>\<open>'ext'\<close> and \<^verbatim>\<open>'in'\<close>.\<close>

datatype chain = Ext | Internal

datatype event =
    NewTx tx_entry
  | TxMempool string tx_entry
  | SyncedPath chain string bool
  | SyncEnd

datatype error =
    ProviderError string
  | TypeError string
  | Error string

datatype signal = HasTx | NoTx | Stop

text \<open>
  The state of a \<^verbatim>\<open>SyncManager\<close>: its own fields and the stores it drives.
  \<open>addr_bal\<close> is the address store's balance mapping, \<open>addr_tx\<close> the
  sequence of entries handed to \<^verbatim>\<open>storeTx\<close>, \<open>hdWallet\<close> the addresses the
  HD wallet knows, \<open>hd_cursor\<close> the sync state of the HD wallet (per chain, the
  index of the next path and the gap count), \<open>provider_cache\<close> the cache of the
  provider, \<open>emitted\<close> the events emitted and \<open>logged\<close> the lines written
  with \<^verbatim>\<open>console.log\<close> so far (oldest first).
\<close>

record sync_manager =
  currentBlock :: block
  minBlockConfirm :: int
  halt :: bool
  isSyncing :: bool
  tx_events :: "string list"
  addr_bal :: "string \<rightharpoonup> balance"
  addr_tx :: "tx_entry list"
  hdWallet :: "string \<rightharpoonup> hd_addr"
  totalBal :: "total_call list"
  unspent :: "unspent_call list"
  hd_cursor :: "chain \<Rightarrow> nat \<times> nat"
  provider_cache :: "string \<rightharpoonup> tx list"
  emitted :: "event list"
  logged :: "string list"

section \<open>Transaction state\<close>

text \<open>
  \<^verbatim>\<open>_getTxState\<close>: height 0 is the mempool; otherwise the depth
  \<open>currentBlock.current - tx.height\<close> is compared with \<open>minBlockConfirm\<close>.
\<close>

definition getTxState :: "sync_manager \<Rightarrow> tx \<Rightarrow> tx_state" where
  "getTxState s t =
     (if height t = 0 then Mempool
      else (let d = current (currentBlock s) - height t
            in if d \<ge> minBlockConfirm s then Confirmed else Pending))"

section \<open>Processing inputs and outputs\<close>

text \<open>
  The outpoint string \<^verbatim>\<open>txid + ':' + index\<close> (for an input,
  \<^verbatim>\<open>prev_txid + ':' + prev_index\<close>); \<open>show_nat\<close> is the decimal rendering of the
  index that JavaScript's string concatenation produces.
\<close>

definition digit :: "nat \<Rightarrow> char" where
  "digit d = ''0123456789'' ! d"

fun show_nat :: "nat \<Rightarrow> string" where
  "show_nat n =
     (if n < 10 then [digit n]
      else show_nat (n div 10) @ [digit (n mod 10)])"

declare show_nat.simps [simp del]

fun point_of :: "inout \<Rightarrow> utxo \<Rightarrow> string" where
  "point_of Out u = txid u @ '':'' @ show_nat (index u)"
| "point_of In u = prev_txid u @ '':'' @ show_nat (prev_index u)"

text \<open>
  \<^verbatim>\<open>if (path) addrObj = keyManager.pathToScriptHash(path, P2WPKH)\<close>: the path is
  optional, and an empty string is falsy too. The key derivation itself is
  cryptography; it is the parameter \<open>km\<close>, from a path to the script hash and the
  address object.
\<close>

type_synonym key_manager = "string \<Rightarrow> string \<times> hd_addr"

fun addrObj_of :: "key_manager \<Rightarrow> string option \<Rightarrow> hd_addr option" where
  "addrObj_of km None = None"
| "addrObj_of km (Some p) = (if p = [] then None else Some (snd (km p)))"

text \<open>
  \<^verbatim>\<open>if (!bal) { await _addr.newAddress(utxo.address); bal = await _addr.get(utxo.address) }\<close>.
  Modelled from the spec: \<^verbatim>\<open>newAddress\<close> of the address manager (outside the
  sources) creates the record of an address, with nothing in its ledgers.
\<close>

definition newAddress :: "string \<Rightarrow> sync_manager \<Rightarrow> sync_manager" where
  "newAddress a s = s\<lparr>addr_bal := (addr_bal s)(a \<mapsto> empty_balance)\<rparr>"

definition ensure_balance :: "string \<Rightarrow> sync_manager \<Rightarrow> sync_manager \<times> balance" where
  "ensure_balance a s =
     (case addr_bal s a of
        Some b \<Rightarrow> (s, b)
      | None \<Rightarrow> (newAddress a s, empty_balance))"

text \<open>
  The part of the loop body after \<open>own_addr = true\<close>: the outpoint, the public key
  and path written on the item, the skip of an outpoint already in its state
  bucket, and otherwise the ledger entry, the call on the total balance, the fee
  entry, the save of the balance and the call on the unspent store.
\<close>

definition record_utxo ::
  "inout \<Rightarrow> tx_state \<Rightarrow> int \<Rightarrow> hd_addr \<Rightarrow> balance \<Rightarrow> sync_manager \<Rightarrow> utxo \<Rightarrow> sync_manager \<times> utxo" where
  "record_utxo io st txFee a bal s u =
     (let point = point_of io u;
          u' = u\<lparr>own_addr := True, address_public_key := Some (publicKey a),
                 address_path := Some (hd_path a)\<rparr>
      in if getTx (bal_side bal io) st point \<noteq> None then (s, u')
         else
           (let bal1 = bal_side_update io (addTxid (bal_side bal io) st point (amount_value u')) bal;
                s1 = s\<lparr>totalBal := totalBal s @ [AddTxId io st u' point txFee]\<rparr>;
                bal2 = (if txFee > 0
                        then bal1\<lparr>bal_fee := addTxid (bal_fee bal1) st point txFee\<rparr>
                        else bal1);
                s2 = s1\<lparr>addr_bal := (addr_bal s1)(address u' \<mapsto> bal2)\<rparr>;
                s3 = s2\<lparr>unspent := unspent s2 @ [UnspentAdd u' io]\<rparr>
            in (s3, u')))"

text \<open>
  One turn of the loop of \<^verbatim>\<open>_processUtxo\<close>. Modelled from the spec: the HD
  wallet (of the package \<^verbatim>\<open>lib-wallet\<close>, outside the sources) is a mapping from
  an address to its address object; \<^verbatim>\<open>getAddress\<close> reads it, \<^verbatim>\<open>addAddress\<close>
  stores an object under its address. The result is the new state and the item as
  pushed on \<open>res\<close>.
\<close>

definition processUtxo_item ::
  "key_manager \<Rightarrow> inout \<Rightarrow> tx_state \<Rightarrow> int \<Rightarrow> string option \<Rightarrow> sync_manager \<Rightarrow> utxo
     \<Rightarrow> sync_manager \<times> utxo" where
  "processUtxo_item km io st txFee path s u0 =
     (let addr = hdWallet s (address u0);
          u = u0\<lparr>own_addr := False\<rparr>;
          (s1, bal) = ensure_balance (address u) s
      in case (addrObj_of km path, addr) of
           (Some ao, None) \<Rightarrow>
             if hd_address ao \<noteq> address u then (s1, u)
             else
               (let s2 = s1\<lparr>hdWallet := (hdWallet s1)(hd_address ao \<mapsto> ao)\<rparr>
                in case hdWallet s2 (hd_address ao) of
                     None \<Rightarrow> (s2, u)
                   | Some a \<Rightarrow> record_utxo io st txFee a bal s2 u)
         | (_, None) \<Rightarrow> (s1, u)
         | (_, Some a) \<Rightarrow> record_utxo io st txFee a bal s1 u)"

fun processUtxo ::
  "key_manager \<Rightarrow> utxo list \<Rightarrow> inout \<Rightarrow> tx_state \<Rightarrow> int \<Rightarrow> string option \<Rightarrow> sync_manager
     \<Rightarrow> sync_manager \<times> utxo list" where
  "processUtxo km [] io st txFee path s = (s, [])"
| "processUtxo km (u # us) io st txFee path s =
     (let (s1, r) = processUtxo_item km io st txFee path s u;
          (s2, res) = processUtxo km us io st txFee path s1
      in (s2, r # res))"

section \<open>Processing a history\<close>

text \<open>The direction of a transaction, from the processed outputs and inputs.\<close>

definition direction_of :: "tx \<Rightarrow> utxo list \<Rightarrow> utxo list \<Rightarrow> direction" where
  "direction_of t outs ins =
     (let ownOuts = filter own_addr outs;
          ownIns = filter own_addr ins
      in if length ownOuts = length (tx_out t) \<and> length ownIns = length (tx_in t) then INTERNAL
         else if length ownIns = 0 then INCOMING
         else if length ownOuts > 0 then OUTGOING
         else UNKNOWN)"

text \<open>The \<^verbatim>\<open>reduce\<close> that computes the amount of the entry, from 0.\<close>

definition totalOutput :: "direction \<Rightarrow> utxo list \<Rightarrow> int" where
  "totalOutput dir outs =
     foldl (\<lambda>sum d.
        if (dir = INCOMING \<or> dir = INTERNAL) \<and> own_addr d then sum + amount_value d
        else if dir = OUTGOING \<and> \<not> own_addr d then sum + amount_value d
        else sum) 0 outs"

definition make_entry :: "tx \<Rightarrow> utxo list \<Rightarrow> utxo list \<Rightarrow> tx_entry" where
  "make_entry t outs ins =
     (let dir = direction_of t outs ins
      in \<lparr>entry_txid = tx_txid t,
          from_address = map address (tx_in t),
          to_address = map address (tx_out t),
          entry_fee = fee t,
          amount = totalOutput dir outs,
          entry_height = height t,
          entry_direction = dir,
          to_address_meta =
            map (\<lambda>out. \<lparr>meta_amount = amount_value out, own_address = own_addr out\<rparr>) outs\<rparr>)"

text \<open>
  The processed outputs and inputs of one transaction of the history: the outputs
  first, with the fee of the transaction, then the inputs with fee 0, on the state
  the outputs left.
\<close>

definition processed_outs ::
  "key_manager \<Rightarrow> string option \<Rightarrow> sync_manager \<Rightarrow> tx \<Rightarrow> sync_manager \<times> utxo list" where
  "processed_outs km path s t = processUtxo km (tx_out t) Out (getTxState s t) (fee t) path s"

definition processed_ins ::
  "key_manager \<Rightarrow> string option \<Rightarrow> sync_manager \<Rightarrow> tx \<Rightarrow> sync_manager \<times> utxo list" where
  "processed_ins km path s t =
     processUtxo km (tx_in t) In (getTxState s t) 0 path (fst (processed_outs km path s t))"

text \<open>
  The body of the loop of \<^verbatim>\<open>_processHistory\<close>: the entry is built, emitted as
  \<open>new-tx\<close> when its height is 0, and handed to \<^verbatim>\<open>storeTx\<close>. The time stamp
  \<open>mempool_ts\<close> that the loop writes on an unconfirmed transaction is not part of
  the entry and is left out.
\<close>

definition processTx ::
  "key_manager \<Rightarrow> string option \<Rightarrow> sync_manager \<Rightarrow> tx \<Rightarrow> sync_manager \<times> tx_entry" where
  "processTx km path s t =
     (let outs = snd (processed_outs km path s t);
          (s2, ins) = processed_ins km path s t;
          entry = make_entry t outs ins;
          s3 = (if entry_height entry = 0 then s2\<lparr>emitted := emitted s2 @ [NewTx entry]\<rparr> else s2);
          s4 = s3\<lparr>addr_tx := addr_tx s3 @ [entry]\<rparr>
      in (s4, entry))"

fun processTxs ::
  "key_manager \<Rightarrow> string option \<Rightarrow> sync_manager \<Rightarrow> tx list \<Rightarrow> sync_manager \<times> tx_entry list" where
  "processTxs km path s [] = (s, [])"
| "processTxs km path s (t # ts) =
     (let (s1, e) = processTx km path s t;
          (s2, es) = processTxs km path s1 ts
      in (s2, e # es))"

section \<open>Watching a transaction in the mempool\<close>

text \<open>\<^verbatim>\<open>Array.prototype.indexOf\<close> (-1 when absent) and \<^verbatim>\<open>splice(index, 1)\<close>.\<close>

fun indexOf :: "'a list \<Rightarrow> 'a \<Rightarrow> int" where
  "indexOf [] x = - 1"
| "indexOf (y # ys) x =
     (if y = x then 0 else (let i = indexOf ys x in if i < 0 then - 1 else i + 1))"

definition splice1 :: "nat \<Rightarrow> 'a list \<Rightarrow> 'a list" where
  "splice1 i xs = take i xs @ drop (Suc i) xs"

definition watchTxMempool :: "string \<Rightarrow> sync_manager \<Rightarrow> sync_manager" where
  "watchTxMempool x s =
     (if x \<in> set (tx_events s) then s else s\<lparr>tx_events := tx_events s @ [x]\<rparr>)"

definition emitTxEvent :: "tx_entry \<Rightarrow> sync_manager \<Rightarrow> sync_manager" where
  "emitTxEvent e s =
     (let i = indexOf (tx_events s) (entry_txid e)
      in if entry_height e = 0 \<and> i \<ge> 0
         then s\<lparr>tx_events := splice1 (nat i) (tx_events s),
                emitted := emitted s @ [TxMempool (entry_txid e) e]\<rparr>
         else s)"

text \<open>
  \<^verbatim>\<open>_processHistory\<close>: the loop over the history, then \<^verbatim>\<open>_emitTxEvent\<close> on every
  new entry.
\<close>

definition processHistory ::
  "key_manager \<Rightarrow> tx list \<Rightarrow> string option \<Rightarrow> sync_manager \<Rightarrow> sync_manager \<times> tx_entry list" where
  "processHistory km txHistory path s =
     (let (s1, newHistory) = processTxs km path s txHistory
      in (foldl (\<lambda>s' e. emitTxEvent e s') s1 newHistory, newHistory))"

text \<open>
  The calls on \<^verbatim>\<open>_tx_events\<close> that the program makes, in the order it makes them:
  a registration by \<^verbatim>\<open>watchTxMempool\<close> or a call of \<^verbatim>\<open>_emitTxEvent\<close>.
\<close>

datatype watch_op = Watch string | Emit tx_entry

fun watch_step :: "watch_op \<Rightarrow> sync_manager \<Rightarrow> sync_manager" where
  "watch_step (Watch x) s = watchTxMempool x s"
| "watch_step (Emit e) s = emitTxEvent e s"

fun watch_run :: "watch_op list \<Rightarrow> sync_manager \<Rightarrow> sync_manager" where
  "watch_run [] s = s"
| "watch_run (w # ws) s = watch_run ws (watch_step w s)"

text \<open>
  The number of \<open>tx:mempool:x\<close> events among the emitted ones, and the number of
  registrations of \<open>x\<close> that a sequence of calls makes: the calls of
  \<^verbatim>\<open>watchTxMempool\<close> with \<open>x\<close> that find it unregistered.
\<close>

fun is_mempool_event :: "string \<Rightarrow> event \<Rightarrow> bool" where
  "is_mempool_event x (TxMempool y e) = (x = y)"
| "is_mempool_event x ev = False"

definition emissions :: "string \<Rightarrow> sync_manager \<Rightarrow> nat" where
  "emissions x s = length (filter (is_mempool_event x) (emitted s))"

fun registrations :: "string \<Rightarrow> watch_op list \<Rightarrow> sync_manager \<Rightarrow> nat" where
  "registrations x [] s = 0"
| "registrations x (w # ws) s =
     (if w = Watch x \<and> x \<notin> set (tx_events s) then 1 else 0)
       + registrations x ws (watch_step w s)"

definition registered :: "string \<Rightarrow> sync_manager \<Rightarrow> nat" where
  "registered x s = (if x \<in> set (tx_events s) then 1 else 0)"

section \<open>Scanning the paths\<close>

text \<open>
  \<^verbatim>\<open>_processPath\<close>. The provider's answer to \<^verbatim>\<open>getAddressHistory\<close> is a
  parameter: \<open>Inl\<close> when the request fails, otherwise the history. \<open>_halt\<close> is read
  before the request.
\<close>

type_synonym provider = "string \<Rightarrow> error + tx list"

definition processPath ::
  "key_manager \<Rightarrow> provider \<Rightarrow> string \<Rightarrow> sync_manager \<Rightarrow> sync_manager \<times> signal" where
  "processPath km getAddressHistory path s =
     (let halt0 = halt s;
          scriptHash = fst (km path)
      in case getAddressHistory scriptHash of
           Inl e \<Rightarrow> (s\<lparr>logged := logged s @ [''failed to get address history'']\<rparr>, Stop)
         | Inr txHistory \<Rightarrow>
             if halt0 then (s, Stop)
             else if txHistory = [] then (s, NoTx)
             else (fst (processHistory km txHistory (Some path) s), HasTx))"

text \<open>The callback that \<^verbatim>\<open>syncAccount\<close> hands to \<^verbatim>\<open>eachAccount\<close>.\<close>

definition visit ::
  "key_manager \<Rightarrow> provider \<Rightarrow> chain \<Rightarrow> string \<Rightarrow> sync_manager \<Rightarrow> sync_manager \<times> signal" where
  "visit km getAddressHistory c path s =
     (if halt s then (s, Stop)
      else (let (s1, res) = processPath km getAddressHistory path s
            in (s1\<lparr>emitted := emitted s1 @ [SyncedPath c path (res = HasTx)]\<rparr>, res)))"

text \<open>
  Modelled from the spec: \<^verbatim>\<open>eachAccount\<close> and \<^verbatim>\<open>resetSyncState\<close> of the HD
  wallet, which the sources do not contain. The scan drives an index cursor per
  chain; \<open>hasTx\<close> resets the gap counter and advances the index, \<open>noTx\<close> increments
  the gap counter and advances the index, \<open>stop\<close> aborts the scan; the scan of a
  chain ends when the gap counter reaches the gap limit, and the external chain is
  scanned before the internal one. \<open>pathOf\<close> is the path of an index on a chain.
  The scan need not end (a provider may report a history for every path), so it
  takes fuel: \<open>None\<close> is a scan still running when the fuel is used up. The
  boolean of the result tells whether the scan was aborted.
\<close>

fun scan_chain ::
  "nat \<Rightarrow> (chain \<Rightarrow> string \<Rightarrow> sync_manager \<Rightarrow> sync_manager \<times> signal) \<Rightarrow> nat
     \<Rightarrow> (chain \<Rightarrow> nat \<Rightarrow> string) \<Rightarrow> chain \<Rightarrow> sync_manager \<Rightarrow> (sync_manager \<times> bool) option" where
  "scan_chain 0 v gapLimit pathOf c s = None"
| "scan_chain (Suc fuel) v gapLimit pathOf c s =
     (let (i, gap) = hd_cursor s c
      in if gap \<ge> gapLimit then Some (s, False)
         else (let (s1, res) = v c (pathOf c i) s
               in case res of
                    Stop \<Rightarrow> Some (s1, True)
                  | HasTx \<Rightarrow>
                      scan_chain fuel v gapLimit pathOf c
                        (s1\<lparr>hd_cursor := (hd_cursor s1)(c := (Suc i, 0))\<rparr>)
                  | NoTx \<Rightarrow>
                      scan_chain fuel v gapLimit pathOf c
                        (s1\<lparr>hd_cursor := (hd_cursor s1)(c := (Suc i, Suc gap))\<rparr>)))"

definition eachAccount ::
  "nat \<Rightarrow> (chain \<Rightarrow> string \<Rightarrow> sync_manager \<Rightarrow> sync_manager \<times> signal) \<Rightarrow> nat
     \<Rightarrow> (chain \<Rightarrow> nat \<Rightarrow> string) \<Rightarrow> sync_manager \<Rightarrow> sync_manager option" where
  "eachAccount fuel v gapLimit pathOf s =
     (case scan_chain fuel v gapLimit pathOf Ext s of
        None \<Rightarrow> None
      | Some (s1, True) \<Rightarrow> Some s1
      | Some (s1, False) \<Rightarrow> map_option fst (scan_chain fuel v gapLimit pathOf Internal s1))"

definition resetSyncState :: "sync_manager \<Rightarrow> sync_manager" where
  "resetSyncState s = s\<lparr>hd_cursor := (\<lambda>c. (0, 0))\<rparr>"

text \<open>The index of the next path and the gap count of a chain.\<close>

definition cursor_of :: "chain \<Rightarrow> sync_manager \<Rightarrow> nat \<times> nat" where
  "cursor_of c s = hd_cursor s c"

section \<open>syncAccount\<close>

text \<open>
  The options of \<^verbatim>\<open>syncAccount\<close>: \<open>None\<close> is a call without options,
  \<open>Some r\<close> one whose \<open>restart\<close> is \<open>r\<close>.
\<close>

definition sync_error :: "sync_manager \<Rightarrow> error" where
  "sync_error s =
     Error (''halted:'' @ (if halt s then ''true'' else ''false'') @ '' is syncing: ''
            @ (if isSyncing s then ''true'' else ''false''))"

text \<open>
  Modelled from the spec: \<^verbatim>\<open>clear\<close> of the address manager and of the provider's
  cache (both outside the sources) empty the store they belong to.
\<close>

definition addr_clear :: "sync_manager \<Rightarrow> sync_manager" where
  "addr_clear s = s\<lparr>addr_bal := Map.empty, addr_tx := []\<rparr>"

definition cache_clear :: "sync_manager \<Rightarrow> sync_manager" where
  "cache_clear s = s\<lparr>provider_cache := Map.empty\<rparr>"

text \<open>The part of \<^verbatim>\<open>syncAccount\<close> before the scan.\<close>

definition syncAccount_begin :: "bool option \<Rightarrow> sync_manager \<Rightarrow> error + sync_manager" where
  "syncAccount_begin opts s =
     (if halt s \<or> isSyncing s then Inl (sync_error s)
      else (let s1 = s\<lparr>isSyncing := True\<rparr>
            in if opts = Some True
               then Inr (addr_clear (cache_clear (resetSyncState s1)))
               else Inr s1))"

text \<open>The part after the scan.\<close>

definition syncAccount_end :: "sync_manager \<Rightarrow> sync_manager" where
  "syncAccount_end s =
     (if halt s
      then s\<lparr>isSyncing := False, emitted := emitted s @ [SyncEnd], halt := False\<rparr>
      else s\<lparr>unspent := unspent s @ [UnspentProcess], isSyncing := False, halt := False,
             emitted := emitted s @ [SyncEnd]\<rparr>)"

definition syncAccount ::
  "nat \<Rightarrow> key_manager \<Rightarrow> provider \<Rightarrow> nat \<Rightarrow> (chain \<Rightarrow> nat \<Rightarrow> string) \<Rightarrow> bool option
     \<Rightarrow> sync_manager \<Rightarrow> (error + sync_manager) option" where
  "syncAccount fuel km getAddressHistory gapLimit pathOf opts s =
     (case syncAccount_begin opts s of
        Inl e \<Rightarrow> Some (Inl e)
      | Inr s1 \<Rightarrow>
          map_option (\<lambda>s2. Inr (syncAccount_end s2))
            (eachAccount fuel (visit km getAddressHistory) gapLimit pathOf s1))"

section \<open>Watched script hashes\<close>

text \<open>
  What \<^verbatim>\<open>subscribeToAddress\<close> resolves to: a status hash, \<open>null\<close> for a script
  hash with no history, or an error object with its message. The persisted lists
  of \<^verbatim>\<open>address-watch.js\<close> hold pairs of a script hash and such an answer, one list
  per chain. \<open>Undefined\<close> is the value of an argument that a caller leaves out.
  Modelled from the spec: the state store of \<^verbatim>\<open>utils.js\<close> (outside the sources)
  keeps the list of a chain; \<^verbatim>\<open>getWatchedScriptHashes\<close> reads it and
  \<^verbatim>\<open>addWatchedScriptHashes\<close> replaces it.
\<close>

datatype bal_hash = Status string | Null | ErrorObj string | Undefined

type_synonym watched = "chain \<Rightarrow> (string \<times> bal_hash) list"

text \<open>\<^verbatim>\<open>this.maxScriptWatch = config.maxScriptWatch || 10\<close>.\<close>

fun maxScriptWatch_of :: "int option \<Rightarrow> int" where
  "maxScriptWatch_of None = 10"
| "maxScriptWatch_of (Some n) = (if n = 0 then 10 else n)"

text \<open>\<^verbatim>\<open>balHash?.message\<close> as a condition: a message that is not the empty string.\<close>

fun has_message :: "bal_hash \<Rightarrow> bool" where
  "has_message (ErrorObj m) = (m \<noteq> [])"
| "has_message b = False"

fun message_of :: "bal_hash \<Rightarrow> string" where
  "message_of (ErrorObj m) = m"
| "message_of b = []"

text \<open>
  \<^verbatim>\<open>watchAddress\<close>. \<^verbatim>\<open>shift()\<close> removes the first element and leaves an empty
  list empty, as \<open>tl\<close> does. The list is persisted only when the subscription
  succeeded.
\<close>

definition watchAddress ::
  "int \<Rightarrow> (string \<Rightarrow> error + bal_hash) \<Rightarrow> string \<Rightarrow> chain \<Rightarrow> watched \<Rightarrow> error + watched" where
  "watchAddress maxScriptWatch subscribeToAddress scriptHash addrType st =
     (let hashList = st addrType;
          hashList1 = (if int (length hashList) \<ge> maxScriptWatch then tl hashList else hashList)
      in case subscribeToAddress scriptHash of
           Inl e \<Rightarrow> Inl e
         | Inr balHash \<Rightarrow>
             if has_message balHash
             then Inl (Error (''Failed to subscribe to address '' @ message_of balHash))
             else Inr (st(addrType := hashList1 @ [(scriptHash, balHash)])))"

section \<open>The script-hash change handler\<close>

text \<open>
  The methods an \<^verbatim>\<open>AddressWatch\<close> object has: the three of its class and those it
  inherits from \<^verbatim>\<open>EventEmitter\<close>. Calling any other name on it raises a
  \<^verbatim>\<open>TypeError\<close>.
\<close>

definition addressWatch_methods :: "string list" where
  "addressWatch_methods =
     [''startWatching'', ''watchAddress'', ''getWatchedAddress'',
      ''on'', ''once'', ''off'', ''emit'', ''addListener'', ''removeListener'',
      ''removeAllListeners'', ''prependListener'', ''prependOnceListener'', ''listeners'',
      ''rawListeners'', ''listenerCount'', ''eventNames'', ''setMaxListeners'',
      ''getMaxListeners'']"

definition addrWatch_call :: "string \<Rightarrow> error option" where
  "addrWatch_call name =
     (if name \<in> set addressWatch_methods then None
      else Some (TypeError (''_addrWatch.'' @ name @ '' is not a function'')))"

text \<open>
  The inner \<^verbatim>\<open>process\<close> of \<^verbatim>\<open>_updateScriptHashBalance\<close> over one watched list:
  an entry for another script hash, or with the same status hash, or met while
  halted, is passed over; for the others the mempool history is fetched and
  processed. A failed request ends the handler with its error; the state reached
  so far stays.
\<close>

fun process_watched ::
  "key_manager \<Rightarrow> provider \<Rightarrow> string \<Rightarrow> bal_hash \<Rightarrow> (string \<times> bal_hash) list \<Rightarrow> sync_manager
     \<Rightarrow> sync_manager \<times> error option" where
  "process_watched km getMempoolTx changeScriptHash changeHash [] s = (s, None)"
| "process_watched km getMempoolTx changeScriptHash changeHash ((scripthash, balHash) # rest) s =
     (if changeScriptHash \<noteq> scripthash \<or> changeHash = balHash \<or> halt s
      then process_watched km getMempoolTx changeScriptHash changeHash rest s
      else (case getMempoolTx scripthash of
              Inl e \<Rightarrow> (s, Some e)
            | Inr txHistory \<Rightarrow>
                process_watched km getMempoolTx changeScriptHash changeHash rest
                  (fst (processHistory km txHistory None s))))"

definition updateScriptHashBalance ::
  "key_manager \<Rightarrow> provider \<Rightarrow> watched \<Rightarrow> string \<Rightarrow> bal_hash \<Rightarrow> sync_manager
     \<Rightarrow> sync_manager \<times> error option" where
  "updateScriptHashBalance km getMempoolTx st changeScriptHash changeHash s =
     (let extlist = st Ext;
          inlist = st Internal
      in case process_watched km getMempoolTx changeScriptHash changeHash extlist s of
           (s1, Some e) \<Rightarrow> (s1, Some e)
         | (s1, None) \<Rightarrow>
             (case process_watched km getMempoolTx changeScriptHash changeHash inlist s1 of
                (s2, Some e) \<Rightarrow> (s2, Some e)
              | (s2, None) \<Rightarrow>
                  (case addrWatch_call ''stopWatching'' of
                     Some e \<Rightarrow> (s2, Some e)
                   | None \<Rightarrow> (s2\<lparr>unspent := unspent s2 @ [UnspentProcess]\<rparr>, None))))"

text \<open>
  The listener that the constructor of \<^verbatim>\<open>SyncManager\<close> installs for \<open>new-tx\<close>:
  nothing while halted, and an error of the handler is caught and logged.
  \<^verbatim>\<open>startWatching\<close> forwards the provider's \<open>new-tx\<close> with its first argument
  only, so the handler gets that argument and no \<open>changeHash\<close>.
\<close>

definition on_new_tx ::
  "key_manager \<Rightarrow> provider \<Rightarrow> watched \<Rightarrow> string \<Rightarrow> sync_manager \<Rightarrow> sync_manager" where
  "on_new_tx km getMempoolTx st changeHash s =
     (if halt s then s
      else (case updateScriptHashBalance km getMempoolTx st changeHash Undefined s of
              (s1, None) \<Rightarrow> s1
            | (s1, Some e) \<Rightarrow> s1\<lparr>logged := logged s1 @ [''failed to update addr balance'']\<rparr>))"

section \<open>Outpoints that a run has dealt with\<close>






section \<open>The classification in the words of the specification\<close>

text \<open>
  The direction as the specification words it, on the processed outputs and inputs
  of a transaction: all outputs and all inputs the wallet's is \<open>INTERNAL\<close>; no
  input the wallet's is \<open>INCOMING\<close>; some input the wallet's and at least one
  output in the transaction is \<open>OUTGOING\<close>; anything else is \<open>UNKNOWN\<close>.
\<close>

definition spec_direction :: "tx \<Rightarrow> utxo list \<Rightarrow> utxo list \<Rightarrow> direction" where
  "spec_direction t outs ins =
     (if list_all own_addr outs \<and> list_all own_addr ins then INTERNAL
      else if \<not> list_ex own_addr ins then INCOMING
      else if list_ex own_addr ins \<and> tx_out t \<noteq> [] then OUTGOING
      else UNKNOWN)"

section \<open>A small wallet\<close>

text \<open>
  A wallet that knows one address \<open>a\<close>, at block 10, and three transactions: one
  that spends an output of \<open>a\<close> to a foreign address \<open>x\<close> with change back to \<open>a\<close>,
  one that spends it to \<open>x\<close> entirely, and one unconfirmed payment to \<open>a\<close>.
\<close>

definition ex_km :: key_manager where
  "ex_km p = (''h'' @ p, \<lparr>hd_address = ''a'', publicKey = ''k'', hd_path = p\<rparr>)"

definition ex_wallet :: sync_manager where
  "ex_wallet =
     \<lparr>currentBlock = \<lparr>current = 10, last = 9, diff = 1\<rparr>, minBlockConfirm = 1,
      halt = False, isSyncing = False, tx_events = [],
      addr_bal = Map.empty, addr_tx = [],
      hdWallet = [''a'' \<mapsto> \<lparr>hd_address = ''a'', publicKey = ''k'', hd_path = ''m/0/0''\<rparr>],
      totalBal = [], unspent = [], hd_cursor = (\<lambda>c. (0, 0)), provider_cache = Map.empty,
      emitted = [], logged = []\<rparr>"

definition mk_utxo :: "string \<Rightarrow> int \<Rightarrow> string \<Rightarrow> nat \<Rightarrow> string \<Rightarrow> nat \<Rightarrow> utxo" where
  "mk_utxo a v t i pt pi =
     \<lparr>address = a, amount_value = v, txid = t, index = i, prev_txid = pt, prev_index = pi,
      own_addr = False, address_public_key = None, address_path = None\<rparr>"

definition ex_spend :: tx where
  "ex_spend = \<lparr>tx_txid = ''t3'', height = 5, fee = 1,
     tx_out = [mk_utxo ''x'' 6 ''t3'' 0 [] 0, mk_utxo ''a'' 3 ''t3'' 1 [] 0],
     tx_in = [mk_utxo ''a'' 10 ''t3'' 0 ''t1'' 0]\<rparr>"

definition ex_sweep :: tx where
  "ex_sweep = \<lparr>tx_txid = ''t2'', height = 5, fee = 1,
     tx_out = [mk_utxo ''x'' 9 ''t2'' 0 [] 0],
     tx_in = [mk_utxo ''a'' 10 ''t2'' 0 ''t1'' 0]\<rparr>"

definition ex_receive :: tx where
  "ex_receive = \<lparr>tx_txid = ''t4'', height = 0, fee = 1,
     tx_out = [mk_utxo ''a'' 7 ''t4'' 0 [] 0],
     tx_in = [mk_utxo ''y'' 8 ''t4'' 0 ''t0'' 2]\<rparr>"

lemmas ex_defs = ex_km_def ex_wallet_def mk_utxo_def ex_spend_def ex_sweep_def ex_receive_def

lemmas process_defs = processTx_def processed_outs_def processed_ins_def processUtxo_item_def
  record_utxo_def ensure_balance_def newAddress_def getTxState_def getTx_def addTxid_def
  make_entry_def direction_of_def totalOutput_def empty_balance_def empty_ledger_def
  show_nat.simps digit_def

text \<open>
  The entry of the unconfirmed payment, a watched list at a capacity of two, a
  provider whose requests fail and one that knows no history, the paths of the two
  chains, a wallet that has synced before, and the history of the two
  transactions \<open>t4\<close> and \<open>t3\<close> with the state after it is processed.
\<close>

definition ex_entry :: tx_entry where
  "ex_entry = \<lparr>entry_txid = ''t4'', from_address = [''y''], to_address = [''a''], entry_fee = 1,
      amount = 7, entry_height = 0, entry_direction = INCOMING,
      to_address_meta = [\<lparr>meta_amount = 7, own_address = True\<rparr>]\<rparr>"

definition ex_watched :: watched where
  "ex_watched = (\<lambda>c. []) (Ext := [(''sh1'', Status ''old''), (''sh2'', Null)])"

definition ex_subscribe :: "string \<Rightarrow> error + bal_hash" where
  "ex_subscribe h = Inr (Status (''st-'' @ h))"

definition ex_pathOf :: "chain \<Rightarrow> nat \<Rightarrow> string" where
  "ex_pathOf c i = (case c of Ext \<Rightarrow> ''m/0/'' | Internal \<Rightarrow> ''m/1/'') @ show_nat i"

definition ex_down :: provider where
  "ex_down h = Inl (ProviderError ''client not connected'')"

definition ex_empty :: provider where
  "ex_empty h = Inr []"

definition ex_used :: sync_manager where
  "ex_used = ex_wallet\<lparr>hd_cursor := (\<lambda>c. (7, 1)),
     addr_bal := [''a'' \<mapsto> empty_balance],
     provider_cache := [''t1'' \<mapsto> []]\<rparr>"

definition ex_mempool :: provider where
  "ex_mempool h = Inr [ex_receive]"




lemmas watch_defs = watchTxMempool_def emitTxEvent_def splice1_def emissions_def registered_def

lemmas scan_defs = visit_def processPath_def eachAccount_def ex_pathOf_def ex_down_def
  ex_empty_def show_nat.simps digit_def

section \<open>Properties\<close>

text \<open>
  C5. For every transaction, \<^verbatim>\<open>_getTxState\<close> answers \<open>mempool\<close> exactly when the
  height is 0, \<open>confirmed\<close> exactly when the height is not 0 and the depth
  \<open>currentBlock.current - height\<close> is at least \<open>minBlockConfirm\<close>, and \<open>pending\<close>
  exactly in the remaining case.
\<close>

theorem getTxState_cases:
  "(getTxState s t = Mempool) = (height t = 0) \<and>
   (getTxState s t = Confirmed) =
     (height t \<noteq> 0 \<and> current (currentBlock s) - height t \<ge> minBlockConfirm s) \<and>
   (getTxState s t = Pending) =
     (height t \<noteq> 0 \<and> \<not> current (currentBlock s) - height t \<ge> minBlockConfirm s)"
  by (simp add: getTxState_def Let_def)

subsection \<open>Direction and amount of an entry\<close>

lemma processUtxo_length:
  "length (snd (processUtxo km us io st txFee path s)) = length us"
  by (induction us arbitrary: s) (simp_all add: split_beta Let_def)

lemma filter_all_length: "(length (filter P xs) = length xs) = list_all P xs"
proof (induction xs)
  case Nil
  show ?case by simp
next
  case (Cons x xs)
  have le: "length (filter P xs) \<le> length xs" by (rule length_filter_le)
  show ?case
  proof (cases "P x")
    case True
    with Cons show ?thesis by simp
  next
    case False
    from le have "length (filter P xs) \<noteq> Suc (length xs)" by arith
    with False show ?thesis by simp
  qed
qed

lemma filter_none_length: "(length (filter P xs) = 0) = (\<not> list_ex P xs)"
  by (induction xs) auto

lemma filter_some_length: "(length (filter P xs) > 0) = list_ex P xs"
  by (induction xs) auto

text \<open>
  C1, as the code has it. An output or input is the wallet's when
  \<^verbatim>\<open>_processUtxo\<close> has set its \<open>own_addr\<close>. For every transaction that the loop
  of \<^verbatim>\<open>_processHistory\<close> processes, in any state: the direction of its entry is
  \<open>INTERNAL\<close> if all outputs and all inputs are the wallet's; otherwise \<open>INCOMING\<close>
  if no input is the wallet's; otherwise \<open>OUTGOING\<close> if at least one output is the
  wallet's; otherwise \<open>UNKNOWN\<close>.
\<close>

theorem direction_classification:
  "entry_direction (snd (processTx km path s t)) =
     (let outs = snd (processed_outs km path s t);
          ins = snd (processed_ins km path s t)
      in if list_all own_addr outs \<and> list_all own_addr ins then INTERNAL
         else if \<not> list_ex own_addr ins then INCOMING
         else if list_ex own_addr outs then OUTGOING
         else UNKNOWN)"
proof -
  have lo: "length (tx_out t) = length (snd (processed_outs km path s t))"
    by (simp add: processed_outs_def processUtxo_length)
  have li: "length (tx_in t) = length (snd (processed_ins km path s t))"
    by (simp add: processed_ins_def processUtxo_length)
  show ?thesis
    unfolding processTx_def make_entry_def direction_of_def Let_def split_beta lo li
    by (simp add: filter_all_length filter_none_length filter_some_length
        del: length_0_conv length_greater_0_conv)
qed

text \<open>The spend with change, evaluated: an outgoing transaction.\<close>

theorem direction_classification_witness:
  "entry_direction (snd (processTx ex_km None ex_wallet ex_spend)) = OUTGOING"
  using direction_classification [of ex_km None ex_wallet ex_spend]
  by (simp add: ex_defs process_defs Let_def)

text \<open>
  C1, as the specification words it, fails: the transaction that spends an output
  of the wallet to a foreign address without change has an input of the wallet's
  and one output, so the specification's wording makes it \<open>OUTGOING\<close>; the code
  makes it \<open>UNKNOWN\<close>, since none of its outputs is the wallet's.
\<close>

theorem direction_spec_counterexample:
  "entry_direction (snd (processTx ex_km None ex_wallet ex_sweep)) = UNKNOWN \<and>
   spec_direction ex_sweep (snd (processed_outs ex_km None ex_wallet ex_sweep))
     (snd (processed_ins ex_km None ex_wallet ex_sweep)) = OUTGOING"
  by (simp add: ex_defs process_defs spec_direction_def Let_def)

lemma foldl_amount:
  "foldl (\<lambda>sum d. if P d then sum + amount_value d else sum) a outs =
     a + sum_list (map amount_value (filter P outs))"
  by (induction outs arbitrary: a) simp_all

text \<open>
  C6. For every transaction that the loop of \<^verbatim>\<open>_processHistory\<close> processes, the
  amount of its entry is the sum of the values of exactly those processed outputs
  that are the wallet's when the direction is \<open>INCOMING\<close> or \<open>INTERNAL\<close>, and of
  exactly those that are not the wallet's when the direction is \<open>OUTGOING\<close>; no
  other output contributes.
\<close>

theorem amount_sum:
  "amount (snd (processTx km path s t)) =
     (let outs = snd (processed_outs km path s t);
          dir = entry_direction (snd (processTx km path s t))
      in sum_list (map amount_value
           (filter (\<lambda>d. ((dir = INCOMING \<or> dir = INTERNAL) \<and> own_addr d) \<or>
                        (dir = OUTGOING \<and> \<not> own_addr d)) outs)))"
proof -
  have eq: "(\<lambda>sum d.
        if (dir = INCOMING \<or> dir = INTERNAL) \<and> own_addr d then sum + amount_value d
        else if dir = OUTGOING \<and> \<not> own_addr d then sum + amount_value d
        else sum) =
     (\<lambda>sum d. if ((dir = INCOMING \<or> dir = INTERNAL) \<and> own_addr d) \<or>
                 (dir = OUTGOING \<and> \<not> own_addr d)
              then sum + amount_value d else sum)" for dir
    by (intro ext) auto
  show ?thesis
    unfolding processTx_def make_entry_def Let_def split_beta totalOutput_def eq
    by (simp add: foldl_amount)
qed

text \<open>The spend with change, evaluated: 6 goes to the foreign address.\<close>

theorem amount_sum_witness:
  "amount (snd (processTx ex_km None ex_wallet ex_spend)) = 6"
  using amount_sum [of ex_km None ex_wallet ex_spend]
  by (simp add: ex_defs process_defs Let_def)

subsection \<open>Processing a history twice\<close>
















lemma point_of_upd [simp]:
  "point_of io (u\<lparr>own_addr := x\<rparr>) = point_of io u"
  "point_of io (u\<lparr>address_public_key := y\<rparr>) = point_of io u"
  "point_of io (u\<lparr>address_path := z\<rparr>) = point_of io u"
  by (cases io; simp)+



















































subsection \<open>The mempool event of a watched transaction\<close>

lemma indexOf_nonneg: "(indexOf xs x \<ge> 0) = (x \<in> set xs)"
  by (induction xs) (auto simp: Let_def)

lemma splice1_indexOf: "x \<in> set xs \<Longrightarrow> splice1 (nat (indexOf xs x)) xs = remove1 x xs"
proof (induction xs)
  case Nil
  then show ?case by simp
next
  case (Cons y ys)
  show ?case
  proof (cases "y = x")
    case True
    then show ?thesis by (simp add: splice1_def)
  next
    case False
    with Cons.prems have mem: "x \<in> set ys" by simp
    then have nn: "indexOf ys x \<ge> 0" by (simp add: indexOf_nonneg)
    then have "nat (indexOf ys x + 1) = Suc (nat (indexOf ys x))" by simp
    with False nn Cons.IH [OF mem] show ?thesis
      by (simp add: splice1_def Let_def)
  qed
qed

lemma emitTxEvent_eq:
  "emitTxEvent e s =
     (if entry_height e = 0 \<and> entry_txid e \<in> set (tx_events s)
      then s\<lparr>tx_events := remove1 (entry_txid e) (tx_events s),
             emitted := emitted s @ [TxMempool (entry_txid e) e]\<rparr>
      else s)"
  by (simp add: emitTxEvent_def Let_def indexOf_nonneg splice1_indexOf)

lemma watch_step_distinct: "distinct (tx_events s) \<Longrightarrow> distinct (tx_events (watch_step w s))"
  by (cases w) (simp_all add: watchTxMempool_def emitTxEvent_eq)

lemma watch_step_count:
  "distinct (tx_events s) \<Longrightarrow>
   emissions x (watch_step w s) + registered x (watch_step w s) =
     emissions x s + registered x s + (if w = Watch x \<and> x \<notin> set (tx_events s) then 1 else 0)"
proof (cases w)
  case (Watch y)
  then show ?thesis
    by (simp add: watchTxMempool_def emissions_def registered_def)
next
  case (Emit e)
  assume d: "distinct (tx_events s)"
  show ?thesis
  proof (cases "entry_txid e = x")
    case True
    with Emit d show ?thesis
      by (simp add: emitTxEvent_eq emissions_def registered_def)
  next
    case False
    with Emit d show ?thesis
      by (auto simp add: emitTxEvent_eq emissions_def registered_def)
  qed
qed

lemma watch_run_distinct: "distinct (tx_events s) \<Longrightarrow> distinct (tx_events (watch_run ws s))"
  by (induction ws arbitrary: s) (simp_all add: watch_step_distinct)

lemma watch_run_count:
  "distinct (tx_events s) \<Longrightarrow>
   emissions x (watch_run ws s) + registered x (watch_run ws s) =
     emissions x s + registered x s + registrations x ws s"
proof (induction ws arbitrary: s)
  case Nil
  show ?case by simp
next
  case (Cons w ws)
  from Cons.prems have d: "distinct (tx_events (watch_step w s))"
    by (rule watch_step_distinct)
  from Cons.IH [OF d] watch_step_count [OF Cons.prems, of x w]
  show ?case by simp
qed

lemma emit_twice: "distinct (tx_events s) \<Longrightarrow> emitTxEvent e (emitTxEvent e s) = emitTxEvent e s"
  by (simp add: emitTxEvent_eq)

text \<open>
  C8. From the empty registration list of a new \<^verbatim>\<open>SyncManager\<close>, whatever calls
  of \<^verbatim>\<open>watchTxMempool\<close> and \<^verbatim>\<open>_emitTxEvent\<close> follow: the \<open>tx:mempool:x\<close>
  events emitted, plus one if \<open>x\<close> is still registered, are as many as the
  registrations of \<open>x\<close>, so each registration is answered by at most one event;
  registering a registered txid changes nothing; and a second
  \<^verbatim>\<open>_emitTxEvent\<close> for the same entry right after the first changes nothing, the
  txid having left the list.
\<close>

theorem tx_mempool_once:
  "tx_events s = [] \<Longrightarrow>
   emissions x (watch_run ws s) + registered x (watch_run ws s) =
     emissions x s + registrations x ws s \<and>
   (x \<in> set (tx_events (watch_run ws s)) \<longrightarrow>
      watchTxMempool x (watch_run ws s) = watch_run ws s) \<and>
   emitTxEvent e (emitTxEvent e (watch_run ws s)) = emitTxEvent e (watch_run ws s)"
proof -
  assume e: "tx_events s = []"
  then have d: "distinct (tx_events s)" by simp
  from e have r: "registered x s = 0" by (simp add: registered_def)
  from watch_run_count [OF d, of x ws] r
  have c: "emissions x (watch_run ws s) + registered x (watch_run ws s) =
     emissions x s + registrations x ws s" by simp
  have n: "x \<in> set (tx_events (watch_run ws s)) \<longrightarrow>
      watchTxMempool x (watch_run ws s) = watch_run ws s"
    by (simp add: watchTxMempool_def)
  from watch_run_distinct [OF d, of ws]
  have t: "emitTxEvent e (emitTxEvent e (watch_run ws s)) = emitTxEvent e (watch_run ws s)"
    by (rule emit_twice)
  from c n t show ?thesis by blast
qed

text \<open>Two registrations of \<open>t4\<close>, then two calls for its entry: one event.\<close>

theorem tx_mempool_once_witness:
  "tx_events ex_wallet = [] \<and>
   emissions ''t4'' (watch_run [Watch ''t4'', Watch ''t4'', Emit ex_entry, Emit ex_entry] ex_wallet) = 1 \<and>
   registrations ''t4'' [Watch ''t4'', Watch ''t4'', Emit ex_entry, Emit ex_entry] ex_wallet = 1"
  using tx_mempool_once [of ex_wallet "''t4''"
      "[Watch ''t4'', Watch ''t4'', Emit ex_entry, Emit ex_entry]" ex_entry]
  by (simp add: ex_defs ex_entry_def watch_defs Let_def)

subsection \<open>The bound of the watched lists\<close>

text \<open>
  C9. With the capacity that the constructor sets (10 when none is configured): a
  call of \<^verbatim>\<open>watchAddress\<close> that persists a list keeps every chain's list within
  the capacity if it was within it before, and the list of the chain is the old
  one, without its first entry if it was at capacity, followed by the new pair.
\<close>

theorem watchAddress_bound:
  "int (length (st c')) \<le> maxScriptWatch_of cfg \<Longrightarrow>
   subscribeToAddress scriptHash = Inr b \<Longrightarrow>
   watchAddress (maxScriptWatch_of cfg) subscribeToAddress scriptHash c st = Inr st' \<Longrightarrow>
   int (length (st' c')) \<le> maxScriptWatch_of cfg \<and>
   st' c = (if int (length (st c)) \<ge> maxScriptWatch_of cfg then tl (st c) else st c)
             @ [(scriptHash, b)] \<and>
   maxScriptWatch_of None = 10"
  by (cases cfg) (auto simp: watchAddress_def Let_def split: if_splits)

text \<open>A list of two at a capacity of two: the oldest entry leaves.\<close>

theorem watchAddress_bound_witness:
  "int (length (ex_watched Ext)) \<le> maxScriptWatch_of (Some 2) \<and>
   ex_subscribe ''sh3'' = Inr (Status ''st-sh3'') \<and>
   (\<exists>st'. watchAddress (maxScriptWatch_of (Some 2)) ex_subscribe ''sh3'' Ext ex_watched = Inr st' \<and>
      st' Ext = [(''sh2'', Null), (''sh3'', Status ''st-sh3'')])"
proof -
  have h1: "int (length (ex_watched Ext)) \<le> maxScriptWatch_of (Some 2)"
    by (simp add: ex_watched_def)
  have h2: "ex_subscribe ''sh3'' = Inr (Status ''st-sh3'')"
    by (simp add: ex_subscribe_def)
  obtain st' where h3:
    "watchAddress (maxScriptWatch_of (Some 2)) ex_subscribe ''sh3'' Ext ex_watched = Inr st'"
    by (simp add: watchAddress_def ex_subscribe_def Let_def)
  from watchAddress_bound [OF h1 h2 h3]
  have "st' Ext = [(''sh2'', Null), (''sh3'', Status ''st-sh3'')]"
    by (simp add: ex_watched_def)
  with h1 h2 h3 show ?thesis by blast
qed

subsection \<open>A failed request during the scan\<close>

text \<open>
  C3, as the code has it. When the request for the history of a path fails,
  \<^verbatim>\<open>_processPath\<close> logs the failure and answers \<open>stop\<close>, changing nothing else;
  and a scan that visits the path ends there, aborted, with the cursor where it
  was: the gap counter is not incremented and no later path is visited.
\<close>

theorem processPath_failure:
  "getAddressHistory (fst (km path)) = Inl e \<Longrightarrow>
   processPath km getAddressHistory path s =
     (s\<lparr>logged := logged s @ [''failed to get address history'']\<rparr>, Stop) \<and>
   (\<not> halt s \<and> hd_cursor s c = (i, gap) \<and> gap < gapLimit \<and> pathOf c i = path \<longrightarrow>
      scan_chain (Suc fuel) (visit km getAddressHistory) gapLimit pathOf c s =
        Some (s\<lparr>logged := logged s @ [''failed to get address history''],
                emitted := emitted s @ [SyncedPath c path False]\<rparr>, True))"
  by (auto simp add: processPath_def visit_def Let_def)

text \<open>The first external path, with a provider that is down.\<close>

theorem processPath_failure_witness:
  "ex_down (fst (ex_km ''m/0/0'')) = Inl (ProviderError ''client not connected'') \<and>
   \<not> halt ex_wallet \<and> hd_cursor ex_wallet Ext = (0, 0) \<and> (0::nat) < 20 \<and>
   ex_pathOf Ext 0 = ''m/0/0'' \<and>
   map_option snd (scan_chain (Suc 0) (visit ex_km ex_down) 20 ex_pathOf Ext ex_wallet) = Some True"
  using processPath_failure [of ex_down ex_km "''m/0/0''" "ProviderError ''client not connected''"
      ex_wallet Ext 0 0 20 ex_pathOf 0]
  by (simp add: scan_defs ex_defs)

text \<open>
  C3, as the specification words it, fails: with a provider that is down the
  answer for the first path is \<open>stop\<close>, not \<open>noTx\<close>, and the scan ends with the
  cursor of the external chain at index 0 and gap 0, after one visit.
\<close>

theorem processPath_failure_counterexample:
  "snd (processPath ex_km ex_down ''m/0/0'' ex_wallet) \<noteq> NoTx \<and>
   snd (processPath ex_km ex_down ''m/0/0'' ex_wallet) = Stop \<and>
   map_option (cursor_of Ext) (eachAccount 3 (visit ex_km ex_down) 20 ex_pathOf ex_wallet) =
     Some (0, 0) \<and>
   map_option emitted (eachAccount 3 (visit ex_km ex_down) 20 ex_pathOf ex_wallet) =
     Some [SyncedPath Ext ''m/0/0'' False]"
  by (simp add: scan_defs cursor_of_def ex_defs Let_def numeral_3_eq_3)

subsection \<open>The guard and the restart of syncAccount\<close>

text \<open>
  C7. \<^verbatim>\<open>syncAccount\<close> ends with its error whenever the halt flag is set or a sync
  is in progress, whatever the scan would do. Otherwise, called with
  \<open>restart\<close>, it starts the scan from a state in which the cursor of the HD
  wallet is reset, the cache of the provider is empty and the address store is
  empty.
\<close>

theorem syncAccount_guard:
  "(halt s \<or> isSyncing s \<longrightarrow>
      syncAccount fuel km getAddressHistory gapLimit pathOf opts s = Some (Inl (sync_error s))) \<and>
   (\<not> halt s \<and> \<not> isSyncing s \<longrightarrow>
      (let s1 = addr_clear (cache_clear (resetSyncState (s\<lparr>isSyncing := True\<rparr>)))
       in syncAccount_begin (Some True) s = Inr s1 \<and>
          hd_cursor s1 = (\<lambda>c. (0, 0)) \<and> provider_cache s1 = Map.empty \<and>
          addr_bal s1 = Map.empty \<and> addr_tx s1 = [] \<and>
          syncAccount fuel km getAddressHistory gapLimit pathOf (Some True) s =
            map_option (\<lambda>s2. Inr (syncAccount_end s2))
              (eachAccount fuel (visit km getAddressHistory) gapLimit pathOf s1)))"
  by (simp add: syncAccount_def syncAccount_begin_def Let_def addr_clear_def cache_clear_def
      resetSyncState_def)

text \<open>
  A wallet that has synced before, restarted against a provider with no history
  and a gap limit of 2; and the same wallet halted.
\<close>

theorem syncAccount_guard_witness:
  "\<not> halt ex_used \<and> \<not> isSyncing ex_used \<and>
   syncAccount 5 ex_km ex_empty 2 ex_pathOf (Some True) (ex_used\<lparr>halt := True\<rparr>)
     = Some (Inl (Error ''halted:true is syncing: false'')) \<and>
   map_option (map_sum id (\<lambda>s. (hd_cursor s Ext, hd_cursor s Internal, dom (addr_bal s), dom (provider_cache s), unspent s)))
     (syncAccount 5 ex_km ex_empty 2 ex_pathOf (Some True) ex_used)
     = Some (Inr ((2, 2), (2, 2), {}, {}, [UnspentProcess]))"
  using syncAccount_guard [of ex_used 5 ex_km ex_empty 2 ex_pathOf "Some True"]
    syncAccount_guard [of "ex_used\<lparr>halt := True\<rparr>" 5 ex_km ex_empty 2 ex_pathOf "Some True"]
  by (simp add: ex_used_def scan_defs ex_defs sync_error_def syncAccount_end_def
      addr_clear_def cache_clear_def resetSyncState_def Let_def eval_nat_numeral)

subsection \<open>The script-hash change handler\<close>

text \<open>
  C4. A notification for the watched script hash \<open>sh1\<close>, whose stored status
  hash is \<open>old\<close>, not halted. Called with the new status hash \<open>new\<close>, the
  handler ends with a \<^verbatim>\<open>TypeError\<close>. Called by the listener, the mempool
  history is fetched and processed (one entry stored, one call adding to the
  unspent store), then the call of \<^verbatim>\<open>stopWatching\<close> raises the
  \<^verbatim>\<open>TypeError\<close>, the listener logs it, and \<^verbatim>\<open>process()\<close> of the unspent
  store is not called.
\<close>

theorem updateScriptHashBalance_stops:
  "snd (updateScriptHashBalance ex_km ex_mempool ex_watched ''sh1'' (Status ''new'') ex_wallet)
     = Some (TypeError ''_addrWatch.stopWatching is not a function'') \<and>
   (let s = on_new_tx ex_km ex_mempool ex_watched ''sh1'' ex_wallet
    in length (addr_tx s) = 1 \<and> length (unspent s) = 1 \<and> UnspentProcess \<notin> set (unspent s) \<and>
       logged s = [''failed to update addr balance''])"
  by (simp add: updateScriptHashBalance_def on_new_tx_def ex_mempool_def ex_watched_def
      addrWatch_call_def addressWatch_methods_def processHistory_def emitTxEvent_def
      ex_defs process_defs Let_def)

end
